theory Spec2Isabelle
  imports Main "HOL-Library.Sublist"
begin

section \<open>Python strings\<close>

text \<open>
  A Python \<open>str\<close> is modelled as an Isabelle \<open>string\<close>; a character stands for the code
  point of the same number, so the strings of the model are the Python strings over the
  code points 0 to 255. The library predicates and conversions below are the ones of
  Python 3 on that range.
\<close>

definition code :: "char \<Rightarrow> nat" where
  "code c = of_char c"

text \<open>\<open>str.isspace\<close> of one character.\<close>

definition isspace :: "char \<Rightarrow> bool" where
  "isspace c = ((9 \<le> code c \<and> code c \<le> 13) \<or> (28 \<le> code c \<and> code c \<le> 32)
     \<or> code c = 133 \<or> code c = 160)"

text \<open>\<open>str.isalnum\<close> of one character: letters, digits and the numeric characters.\<close>

definition isalnum :: "char \<Rightarrow> bool" where
  "isalnum c = ((48 \<le> code c \<and> code c \<le> 57) \<or> (65 \<le> code c \<and> code c \<le> 90)
     \<or> (97 \<le> code c \<and> code c \<le> 122)
     \<or> code c = 170 \<or> code c = 178 \<or> code c = 179 \<or> code c = 181
     \<or> code c = 185 \<or> code c = 186 \<or> (188 \<le> code c \<and> code c \<le> 190)
     \<or> (192 \<le> code c \<and> code c \<le> 214) \<or> (216 \<le> code c \<and> code c \<le> 246)
     \<or> 248 \<le> code c)"

text \<open>\<open>str.lower\<close>: the upper-case letters of the range are A-Z and U+00C0-U+00DE
  without the multiplication sign U+00D7; each is 32 below its lower-case letter.\<close>

definition lower_char :: "char \<Rightarrow> char" where
  "lower_char c =
     (if (65 \<le> code c \<and> code c \<le> 90) \<or> (192 \<le> code c \<and> code c \<le> 222 \<and> code c \<noteq> 215)
      then char_of (code c + 32) else c)"

definition lower :: "string \<Rightarrow> string" where
  "lower s = map lower_char s"

text \<open>\<open>str.strip()\<close> with no argument.\<close>

definition strip :: "string \<Rightarrow> string" where
  "strip s = rev (dropWhile isspace (rev (dropWhile isspace s)))"

text \<open>\<open>str.split()\<close> with no argument: the maximal runs of non-blank characters.\<close>

fun split_acc :: "string \<Rightarrow> string \<Rightarrow> string list" where
  "split_acc cur [] = (if cur = [] then [] else [rev cur])"
| "split_acc cur (c # cs) =
     (if isspace c then (if cur = [] then split_acc [] cs else rev cur # split_acc [] cs)
      else split_acc (c # cur) cs)"

definition split_ws :: "string \<Rightarrow> string list" where
  "split_ws s = split_acc [] s"

text \<open>\<open>sub in s\<close> on strings.\<close>

fun substr_in :: "string \<Rightarrow> string \<Rightarrow> bool" where
  "substr_in sub [] = (sub = [])"
| "substr_in sub (c # cs) = (prefix sub (c # cs) \<or> substr_in sub cs)"

text \<open>\<open>s.find(sub)\<close>: the least index where \<open>sub\<close> starts, \<open>None\<close> for Python's -1.\<close>

fun find_sub :: "string \<Rightarrow> string \<Rightarrow> nat option" where
  "find_sub sub [] = (if sub = [] then Some 0 else None)"
| "find_sub sub (c # cs) =
     (if prefix sub (c # cs) then Some 0 else map_option Suc (find_sub sub cs))"

text \<open>\<open>s.find(sub, start)\<close> for \<open>start \<ge> 0\<close>.\<close>

definition find_from :: "string \<Rightarrow> string \<Rightarrow> nat \<Rightarrow> nat option" where
  "find_from sub s start =
     (if start \<le> length s then map_option (\<lambda>i. i + start) (find_sub sub (drop start s))
      else None)"

text \<open>The slice \<open>s[a:b]\<close> for \<open>0 \<le> a\<close> and \<open>0 \<le> b\<close>.\<close>

definition slice :: "string \<Rightarrow> nat \<Rightarrow> nat \<Rightarrow> string" where
  "slice s a b = take (b - a) (drop a s)"

section \<open>Dictionaries written as literals\<close>

text \<open>
  A dict literal is kept as the list of its items in source order. A key written twice
  keeps the value written last, so the lookup reads the list from the end.
\<close>

definition dict_get :: "('k \<times> 'v) list \<Rightarrow> 'k \<Rightarrow> 'v option" where
  "dict_get items k = map_of (rev items) k"

section \<open>The manual database (\<open>LinkedInScraper.check_manual_database\<close>)\<close>

definition manual_database :: "((string \<times> string) \<times> string) list" where
  "manual_database =
   [((''satya nadella'', ''microsoft''), ''https://www.linkedin.com/in/satyanadella/''),
    ((''satya nadella'', ''''), ''https://www.linkedin.com/in/satyanadella/''),
    ((''tim cook'', ''apple''), ''https://www.linkedin.com/in/tim-cook-1b4ee/''),
    ((''tim cook'', ''''), ''https://www.linkedin.com/in/tim-cook-1b4ee/''),
    ((''sundar pichai'', ''google''), ''https://www.linkedin.com/in/sundarpichai/''),
    ((''sundar pichai'', ''''), ''https://www.linkedin.com/in/sundarpichai/''),
    ((''elon musk'', ''tesla''), ''https://www.linkedin.com/in/elonmusk/''),
    ((''elon musk'', ''''), ''https://www.linkedin.com/in/elonmusk/''),
    ((''jeff bezos'', ''amazon''), ''https://www.linkedin.com/in/jeffreybezos/''),
    ((''jeff bezos'', ''''), ''https://www.linkedin.com/in/jeffreybezos/''),
    ((''mark zuckerberg'', ''meta''), ''https://www.linkedin.com/in/markzuckerberg/''),
    ((''mark zuckerberg'', ''facebook''), ''https://www.linkedin.com/in/markzuckerberg/''),
    ((''mark zuckerberg'', ''''), ''https://www.linkedin.com/in/markzuckerberg/''),
    ((''reid hoffman'', ''linkedin''), ''https://www.linkedin.com/in/reidhoffman/''),
    ((''reid hoffman'', ''''), ''https://www.linkedin.com/in/reidhoffman/''),
    ((''jensen huang'', ''nvidia''), ''https://www.linkedin.com/in/jenhsunhuang/''),
    ((''jensen huang'', ''''), ''https://www.linkedin.com/in/jenhsunhuang/''),
    ((''melinda gates'', ''''), ''https://www.linkedin.com/in/melindagates/''),
    ((''melinda french gates'', ''''), ''https://www.linkedin.com/in/melindagates/''),
    ((''bill gates'', ''''), ''https://www.linkedin.com/in/williamhgates/''),
    ((''warren buffett'', ''''), ''https://www.linkedin.com/in/warrenbuffett/''),
    ((''richard branson'', ''virgin''), ''https://www.linkedin.com/in/virginbranson/''),
    ((''richard branson'', ''''), ''https://www.linkedin.com/in/virginbranson/''),
    ((''simon sinek'', ''''), ''https://www.linkedin.com/in/simon-sinek-2609923/''),
    ((''daniel pink'', ''''), ''https://www.linkedin.com/in/danielpink/''),
    ((''adam grant'', ''''), ''https://www.linkedin.com/in/adamgrant/''),
    ((''david ackley'', ''bts''), ''https://www.linkedin.com/in/daveackley/''),
    ((''david ackley'', ''''), ''https://www.linkedin.com/in/daveackley/'')]"

text \<open>
  The statements of \<open>check_manual_database\<close> that follow the literal, for any table in
  the place of \<open>manual_database\<close>. A table is the list of the items of a dict, in their
  order; its keys are pairwise different. The loop over the items returns the first
  entry of the same name whose company contains the queried one, or is contained in it.
\<close>

fun partial_company_match ::
  "string \<Rightarrow> string \<Rightarrow> ((string \<times> string) \<times> string) list \<Rightarrow> string option" where
  "partial_company_match name_lower company_lower [] = None"
| "partial_company_match name_lower company_lower (((db_name, db_company), url) # rest) =
     (if db_name = name_lower \<and>
         (substr_in company_lower db_company \<or> substr_in db_company company_lower)
      then Some url
      else partial_company_match name_lower company_lower rest)"

definition check_database ::
  "((string \<times> string) \<times> string) list \<Rightarrow> string \<Rightarrow> string \<Rightarrow> string option" where
  "check_database db person_name company_name =
     (let name_lower = strip (lower person_name);
          company_lower = (if company_name \<noteq> [] then strip (lower company_name) else [])
      in case dict_get db (name_lower, company_lower) of
           Some url \<Rightarrow> Some url
         | None \<Rightarrow>
            (case dict_get db (name_lower, []) of
               Some url \<Rightarrow> Some url
             | None \<Rightarrow>
                (if company_lower \<noteq> []
                 then partial_company_match name_lower company_lower db
                 else None)))"

text \<open>The function of the program: the same statements on the table it writes down.\<close>

definition check_manual_database :: "string \<Rightarrow> string \<Rightarrow> string option" where
  "check_manual_database person_name company_name =
     check_database manual_database person_name company_name"


section \<open>The identity matcher (\<open>LinkedInScraper.validate_profile_match\<close>)\<close>

text \<open>
  A profile is the dict that \<open>scrape_profile\<close> and \<open>create_mock_profile_data\<close> build:
  text entries, and two entries holding lists of dicts of text.
\<close>

datatype pyval = Str string | Dicts "(string \<times> string) list list"

type_synonym profile = "(string \<times> pyval) list"

text \<open>\<open>profile_data.get(key, '')\<close> for the text entries.\<close>

definition get_str :: "profile \<Rightarrow> string \<Rightarrow> string" where
  "get_str profile_data key = (case dict_get profile_data key of Some (Str s) \<Rightarrow> s | _ \<Rightarrow> [])"

text \<open>Method 2: the loop counting the searched words found among the profile's words.\<close>

fun count_matching_words :: "string list \<Rightarrow> string list \<Rightarrow> nat \<Rightarrow> nat" where
  "count_matching_words [] profile_words matching_words = matching_words"
| "count_matching_words (word # rest) profile_words matching_words =
     count_matching_words rest profile_words
       (if 1 < length word \<and> word \<in> set profile_words then matching_words + 1
        else matching_words)"

definition token_overlap_match :: "string \<Rightarrow> string \<Rightarrow> bool" where
  "token_overlap_match searched_name_lower profile_name =
     (let searched_words = split_ws searched_name_lower;
          profile_words = split_ws profile_name;
          matching_words = count_matching_words searched_words profile_words 0
      in min 2 (length searched_words) \<le> matching_words)"

text \<open>Method 3: the first initial and the last name both occur in the profile name.\<close>

definition initials_last_name_match :: "string \<Rightarrow> string \<Rightarrow> bool" where
  "initials_last_name_match searched_name_lower profile_name =
     (let searched_words = split_ws searched_name_lower
      in 2 \<le> length searched_words \<and>
         (let first_initial = (if searched_words ! 0 \<noteq> [] then [searched_words ! 0 ! 0] else []);
              last_name = last searched_words
          in first_initial \<noteq> [] \<and> substr_in last_name profile_name \<and>
             substr_in (lower first_initial) profile_name))"

text \<open>Method 4: the searched company occurs in the profile's company.\<close>

definition company_account :: "profile \<Rightarrow> string \<Rightarrow> bool" where
  "company_account profile_data searched_company =
     (searched_company \<noteq> [] \<and>
      substr_in (lower searched_company) (lower (get_str profile_data ''company'')))"

definition validate_profile_match :: "profile \<Rightarrow> string \<Rightarrow> string \<Rightarrow> bool" where
  "validate_profile_match profile_data searched_name searched_company =
     (let profile_name = strip (lower (get_str profile_data ''name''));
          searched_name_lower = strip (lower searched_name)
      in if profile_name = [] \<or> searched_name_lower = [] then False
         else if profile_name = searched_name_lower then True
         else if token_overlap_match searched_name_lower profile_name then True
         else if initials_last_name_match searched_name_lower profile_name then True
         else if company_account profile_data searched_company then False
         else False)"

text \<open>
  Rule 2 in the words of the specification: of the query's tokens longer than one
  character, at least \<open>min(2, token_count)\<close> occur among the candidate's known-name
  tokens, \<open>token_count\<close> being the number of tokens of the query.
\<close>

definition rule2_accepts :: "string \<Rightarrow> string \<Rightarrow> bool" where
  "rule2_accepts query_name known_name =
     (let query_tokens = split_ws query_name; known_tokens = split_ws known_name
      in min 2 (length query_tokens) \<le>
         length (filter (\<lambda>t. 1 < length t \<and> t \<in> set known_tokens) query_tokens))"

section \<open>Library functions on URLs\<close>

text \<open>
  \<open>str.replace(old, new)\<close> and \<open>str.split(sep)\<close> for a non-empty \<open>old\<close> and \<open>sep\<close>, the
  only way the program calls them: occurrences are taken from the left and do not
  overlap.
\<close>

function replace :: "string \<Rightarrow> string \<Rightarrow> string \<Rightarrow> string" where
  "replace old new [] = []"
| "replace old new (c # cs) =
     (if old \<noteq> [] \<and> prefix old (c # cs)
      then new @ replace old new (drop (length old) (c # cs))
      else c # replace old new cs)"
  by pat_completeness auto
termination
  by (relation "measure (\<lambda>(old, new, s). length s)") (auto simp: neq_Nil_conv)

function split_on_acc :: "string \<Rightarrow> string \<Rightarrow> string \<Rightarrow> string list" where
  "split_on_acc sep cur [] = [rev cur]"
| "split_on_acc sep cur (c # cs) =
     (if sep \<noteq> [] \<and> prefix sep (c # cs)
      then rev cur # split_on_acc sep [] (drop (length sep) (c # cs))
      else split_on_acc sep (c # cur) cs)"
  by pat_completeness auto
termination
  by (relation "measure (\<lambda>(sep, cur, s). length s)") (auto simp: neq_Nil_conv)

definition split_on :: "string \<Rightarrow> string \<Rightarrow> string list" where
  "split_on sep s = split_on_acc sep [] s"

text \<open>
  \<open>urllib.parse.unquote\<close>. A \<open>%\<close> followed by two hexadecimal digits stands for the byte
  of that number, any other character up to code point 127 for its own byte, and the
  bytes are decoded as UTF-8, a malformed sequence giving U+FFFD; a character from code
  point 128 on is copied and ends the bytes before it. The text is first cut into units,
  a unit being a byte from 128 on, which only an escape can give, or a character. The
  strings of the model have the code points 0 to 255, which UTF-8 writes as one byte
  below 128, or as C2 or C3 followed by one byte from 80 to BF; the result is \<open>None\<close>
  where the decoded text has any other character, U+FFFD included.
\<close>

definition hexval :: "char \<Rightarrow> nat option" where
  "hexval c =
     (if 48 \<le> code c \<and> code c \<le> 57 then Some (code c - 48)
      else if 65 \<le> code c \<and> code c \<le> 70 then Some (code c - 55)
      else if 97 \<le> code c \<and> code c \<le> 102 then Some (code c - 87)
      else None)"

definition escaped_unit :: "nat \<Rightarrow> nat + char" where
  "escaped_unit n = (if n < 128 then Inr (char_of n) else Inl n)"

fun unquote_units :: "string \<Rightarrow> (nat + char) list" where
  "unquote_units (p # a # b # rest) =
     (if p = CHR ''%'' then
        (case (hexval a, hexval b) of
           (Some h, Some l) \<Rightarrow> escaped_unit (16 * h + l) # unquote_units rest
         | _ \<Rightarrow> Inr p # unquote_units (a # b # rest))
      else Inr p # unquote_units (a # b # rest))"
| "unquote_units s = map Inr s"

fun decode_units :: "(nat + char) list \<Rightarrow> string option" where
  "decode_units [] = Some []"
| "decode_units (Inr c # units) = map_option ((#) c) (decode_units units)"
| "decode_units (Inl b # Inl b2 # units) =
     (if (b = 194 \<or> b = 195) \<and> 128 \<le> b2 \<and> b2 < 192
      then map_option ((#) (char_of ((b - 192) * 64 + (b2 - 128)))) (decode_units units)
      else None)"
| "decode_units (Inl b # units) = None"

definition unquote :: "string \<Rightarrow> string option" where
  "unquote s = decode_units (unquote_units s)"

text \<open>
  A value that a function of the program returns, as far as the model follows it:
  \<open>Beyond\<close> where the text handled has a character beyond code point 255.
\<close>

datatype 'a modelled = Beyond | Modelled 'a

text \<open>
  \<open>urllib.parse.urlparse\<close>, as far as the program reads it: the network location and the
  path. A scheme is a letter followed by letters, digits, \<open>+\<close>, \<open>-\<close> and \<open>.\<close> up to the
  first colon; the network location follows \<open>//\<close> and ends before the first of \<open>/\<close>,
  \<open>?\<close> and \<open>#\<close>; the path ends before the first \<open>?\<close> or \<open>#\<close>. The parameters that
  \<open>urlparse\<close> cuts from the last path segment start after the last \<open>/\<close>, so they do not
  change whether \<open>/in/\<close> occurs in the path. The model is the library on URLs without
  tabs, line breaks, leading blanks and square brackets.
\<close>

definition scheme_char :: "char \<Rightarrow> bool" where
  "scheme_char c = ((48 \<le> code c \<and> code c \<le> 57) \<or> (65 \<le> code c \<and> code c \<le> 90)
     \<or> (97 \<le> code c \<and> code c \<le> 122) \<or> c = CHR ''+'' \<or> c = CHR ''-'' \<or> c = CHR ''.'')"

definition ascii_alpha :: "char \<Rightarrow> bool" where
  "ascii_alpha c = ((65 \<le> code c \<and> code c \<le> 90) \<or> (97 \<le> code c \<and> code c \<le> 122))"

definition urlparse :: "string \<Rightarrow> string \<times> string" where
  "urlparse url =
     (let rest = (case find_sub '':'' url of
                    Some i \<Rightarrow>
                      if 0 < i \<and> ascii_alpha (url ! 0) \<and> list_all scheme_char (take i url)
                      then drop (i + 1) url else url
                  | None \<Rightarrow> url);
          netloc = (if take 2 rest = ''//''
                    then takeWhile (\<lambda>c. c \<noteq> CHR ''/'' \<and> c \<noteq> CHR ''?'' \<and> c \<noteq> CHR ''#'') (drop 2 rest)
                    else []);
          rest2 = (if take 2 rest = ''//''
                   then dropWhile (\<lambda>c. c \<noteq> CHR ''/'' \<and> c \<noteq> CHR ''?'' \<and> c \<noteq> CHR ''#'') (drop 2 rest)
                   else rest);
          path = takeWhile (\<lambda>c. c \<noteq> CHR ''?'' \<and> c \<noteq> CHR ''#'') rest2
      in (netloc, path))"

section \<open>Candidate clean-up (\<open>LinkedInScraper._clean_linkedin_url\<close>)\<close>

definition validate_linkedin_url :: "string \<Rightarrow> bool" where
  "validate_linkedin_url url =
     (let (netloc, path) = urlparse url
      in if \<not> substr_in ''linkedin.com'' netloc then False
         else if \<not> substr_in ''/in/'' path then False
         else True)"

text \<open>The loop that moves \<open>profile_end\<close> to the first delimiter after \<open>profile_start\<close>.\<close>

fun first_delimiter :: "string list \<Rightarrow> string \<Rightarrow> nat \<Rightarrow> nat \<Rightarrow> nat" where
  "first_delimiter [] url profile_start profile_end = profile_end"
| "first_delimiter (ch # chars) url profile_start profile_end =
     first_delimiter chars url profile_start
       (case find_from ch url profile_start of
          Some pos \<Rightarrow> if pos < profile_end then pos else profile_end
        | None \<Rightarrow> profile_end)"

definition username_chars :: "string \<Rightarrow> string" where
  "username_chars username = filter (\<lambda>c. isalnum c \<or> c = CHR ''-'' \<or> c = CHR ''_'') username"

text \<open>The replacements that remove the artifacts of a decoded URL.\<close>

definition remove_artifacts :: "string \<Rightarrow> string" where
  "remove_artifacts url1 =
     (let url2 = replace ''%26'' ''&'' (replace ''%3D'' ''='' (replace ''%3F'' ''?'' url1))
      in replace [CHR 0x22] [] (replace ''+'' [] (replace ''%22'' [] url2)))"

text \<open>The validation of the filtered username and the canonical URL built from it.\<close>

definition canonical_url :: "string \<Rightarrow> string option" where
  "canonical_url username =
     (if username \<noteq> [] \<and> \<not> prefix ''?'' username \<and> \<not> prefix ''+'' username \<and>
         \<not> prefix ''%'' username \<and> 2 \<le> length username
      then Some (''https://www.linkedin.com/in/'' @ username @ ''/'')
      else None)"

text \<open>The username between the profile marker and the first delimiter after it.\<close>

definition profile_username :: "string \<Rightarrow> nat \<Rightarrow> string" where
  "profile_username url start =
     (let profile_start = (case find_from ''/in/'' url start of Some i \<Rightarrow> i + 4 | None \<Rightarrow> 3);
          profile_end =
            first_delimiter [''/'', ''?'', ''&'', ''#'', '' '', [CHR 0x22], ''+'']
              url profile_start (length url)
      in slice url profile_start profile_end)"

text \<open>The statements of the \<open>try\<close> block after the call of \<open>unquote\<close>.\<close>

definition clean_unquoted :: "string \<Rightarrow> string option" where
  "clean_unquoted url1 =
     (let url = remove_artifacts url1
      in if substr_in ''linkedin.com/in/'' url then
           (case find_sub ''linkedin.com/in/'' url of
              None \<Rightarrow> None
            | Some start \<Rightarrow>
                let username = profile_username url start
                in if username \<noteq> [] then canonical_url (username_chars username)
                   else None)
         else None)"

text \<open>
  The argument is \<open>None\<close> or a string, as is the result. No statement of the \<open>try\<close> block
  raises on a string, so the \<open>except\<close> branch is never taken.
\<close>

definition clean_linkedin_url :: "string option \<Rightarrow> string option modelled" where
  "clean_linkedin_url arg =
     (case arg of
        None \<Rightarrow> Modelled None
      | Some url0 \<Rightarrow>
          if url0 = [] then Modelled None
          else (case unquote url0 of
                  None \<Rightarrow> Beyond
                | Some url1 \<Rightarrow> Modelled (clean_unquoted url1)))"

section \<open>Candidate extraction (\<open>LinkedInScraper._extract_linkedin_urls_from_soup\<close>)\<close>

text \<open>
  The parsed page is read through three queries: the \<open>href\<close> values of its anchors, the
  matches of the profile-URL pattern in its text, and the \<open>href\<close> values of the elements
  that the four result selectors select; each in document order.
\<close>

record soup =
  anchor_hrefs :: "string list"
  text_matches :: "string list"
  selected_hrefs :: "string list"

text \<open>\<open>if clean_url and self.validate_linkedin_url(clean_url): linkedin_urls.append(clean_url)\<close>\<close>

definition append_if_valid :: "string option modelled \<Rightarrow> string list modelled" where
  "append_if_valid cleaned =
     (case cleaned of
        Beyond \<Rightarrow> Beyond
      | Modelled clean_url \<Rightarrow>
         (case clean_url of
            Some u \<Rightarrow> Modelled (if u \<noteq> [] \<and> validate_linkedin_url u then [u] else [])
          | None \<Rightarrow> Modelled []))"

definition urls_of_anchor :: "string \<Rightarrow> string list modelled" where
  "urls_of_anchor href =
     (if substr_in ''/url?q='' href then
        (case unquote (split_on ''&'' (split_on ''/url?q='' href ! 1) ! 0) of
           None \<Rightarrow> Beyond
         | Some actual_url \<Rightarrow>
            if substr_in ''linkedin.com/in/'' actual_url
            then append_if_valid (clean_linkedin_url (Some actual_url)) else Modelled [])
      else if substr_in ''linkedin.com/in/'' href
        then append_if_valid (clean_linkedin_url (Some href))
      else Modelled [])"

text \<open>The URLs appended one after the other: all of them, if the model follows each.\<close>

fun appended :: "'a list modelled list \<Rightarrow> 'a list modelled" where
  "appended [] = Modelled []"
| "appended (Beyond # rest) = Beyond"
| "appended (Modelled xs # rest) =
     (case appended rest of Beyond \<Rightarrow> Beyond | Modelled ys \<Rightarrow> Modelled (xs @ ys))"

definition extract_linkedin_urls_from_soup :: "soup \<Rightarrow> string list modelled" where
  "extract_linkedin_urls_from_soup sp =
     appended
       (map urls_of_anchor (anchor_hrefs sp)
        @ map (\<lambda>m. append_if_valid (clean_linkedin_url (Some m))) (text_matches sp)
        @ map (\<lambda>href. if substr_in ''linkedin.com/in/'' href
                       then append_if_valid (clean_linkedin_url (Some href)) else Modelled [])
              (selected_hrefs sp))"

section \<open>Nickname tables\<close>

text \<open>The literal \<open>nickname_map\<close> of \<open>LinkedInScraper.construct_linkedin_url\<close>.\<close>

definition construct_nickname_map :: "(string \<times> string) list" where
  "construct_nickname_map =
   [(''david'', ''dave''), (''michael'', ''mike''), (''william'', ''bill''),
    (''robert'', ''bob''), (''richard'', ''rick''), (''james'', ''jim''),
    (''thomas'', ''tom''), (''christopher'', ''chris''), (''anthony'', ''tony''),
    (''matthew'', ''matt''), (''daniel'', ''dan''), (''andrew'', ''andy''),
    (''benjamin'', ''ben''), (''jonathan'', ''jon''), (''joseph'', ''joe''),
    (''joshua'', ''josh''), (''nicholas'', ''nick''), (''timothy'', ''tim''),
    (''steven'', ''steve''), (''charles'', ''chuck''), (''gregory'', ''greg''),
    (''patrick'', ''pat''), (''samuel'', ''sam''), (''alexander'', ''alex''),
    (''frederick'', ''fred''), (''douglas'', ''doug''), (''stephen'', ''steve''),
    (''edward'', ''ed''), (''eugene'', ''gene''), (''frank'', ''frank''),
    (''gerald'', ''jerry''), (''harold'', ''harry''), (''leonard'', ''len''),
    (''martin'', ''marty''), (''paul'', ''paul''), (''ronald'', ''ron''),
    (''donald'', ''don''), (''kenneth'', ''ken'')]"

text \<open>\<open>first_name_variations\<close>: the first name, and its nickname if the table has one.\<close>

definition first_name_variations :: "string \<Rightarrow> string list" where
  "first_name_variations first_name =
     (case dict_get construct_nickname_map first_name of
        Some nick \<Rightarrow> [first_name, nick]
      | None \<Rightarrow> [first_name])"

text \<open>
  The literal \<open>nickname_map\<close> of \<open>LinkedInScraper.url_matches_person_name\<close>, item by item
  as written; the key \<open>steve\<close> is written twice.
\<close>

definition matcher_nickname_map :: "(string \<times> string) list" where
  "matcher_nickname_map =
   [(''david'', ''dave''), (''dave'', ''david''),
    (''michael'', ''mike''), (''mike'', ''michael''),
    (''william'', ''bill''), (''bill'', ''william''),
    (''robert'', ''bob''), (''bob'', ''robert''),
    (''richard'', ''rick''), (''rick'', ''richard''),
    (''james'', ''jim''), (''jim'', ''james''),
    (''thomas'', ''tom''), (''tom'', ''thomas''),
    (''christopher'', ''chris''), (''chris'', ''christopher''),
    (''timothy'', ''tim''), (''tim'', ''timothy''),
    (''daniel'', ''dan''), (''dan'', ''daniel''),
    (''andrew'', ''andy''), (''andy'', ''andrew''),
    (''benjamin'', ''ben''), (''ben'', ''benjamin''),
    (''matthew'', ''matt''), (''matt'', ''matthew''),
    (''jonathan'', ''jon''), (''jon'', ''jonathan''),
    (''joseph'', ''joe''), (''joe'', ''joseph''),
    (''joshua'', ''josh''), (''josh'', ''joshua''),
    (''nicholas'', ''nick''), (''nick'', ''nicholas''),
    (''steven'', ''steve''), (''steve'', ''steven''),
    (''stephen'', ''steve''), (''steve'', ''stephen''),
    (''alexander'', ''alex''), (''alex'', ''alexander''),
    (''anthony'', ''tony''), (''tony'', ''anthony''),
    (''charles'', ''chuck''), (''chuck'', ''charles''),
    (''gregory'', ''greg''), (''greg'', ''gregory''),
    (''patrick'', ''pat''), (''pat'', ''patrick''),
    (''samuel'', ''sam''), (''sam'', ''samuel''),
    (''frederick'', ''fred''), (''fred'', ''frederick''),
    (''douglas'', ''doug''), (''doug'', ''douglas''),
    (''edward'', ''ed''), (''ed'', ''edward''),
    (''ronald'', ''ron''), (''ron'', ''ronald''),
    (''donald'', ''don''), (''don'', ''donald''),
    (''kenneth'', ''ken''), (''ken'', ''kenneth'')]"

text \<open>\<open>expanded_name_words\<close>: every name word, followed by its nickname if it has one.\<close>

fun expanded_name_words :: "string list \<Rightarrow> string list" where
  "expanded_name_words [] = []"
| "expanded_name_words (word # name_words) =
     (case dict_get matcher_nickname_map word of
        Some nick \<Rightarrow> word # nick # expanded_name_words name_words
      | None \<Rightarrow> word # expanded_name_words name_words)"

section \<open>The relevance scorer (\<open>NewsCollector.calculate_relevance_score\<close>)\<close>

text \<open>
  An article is the dict that \<open>process_articles\<close> builds. An entry holds a string, or
  \<open>None\<close> where the news service sent a null.
\<close>

record article =
  title :: "string option"
  description :: "string option"
  published_at :: "string option"
  source :: "string option"

text \<open>An entry inside an f-string: \<open>None\<close> is printed as the word \<open>None\<close>.\<close>

definition fstr :: "string option \<Rightarrow> string" where
  "fstr v = (case v of Some s \<Rightarrow> s | None \<Rightarrow> ''None'')"

text \<open>The text that is searched: \<open>f"{article['title']} {article['description']}".lower()\<close>.\<close>

definition content :: "article \<Rightarrow> string" where
  "content a = lower (fstr (title a) @ '' '' @ fstr (description a))"

subsection \<open>Dates\<close>

text \<open>
  \<open>datetime.strptime(s, '%Y-%m-%d')\<close>. The library turns the format into the pattern
  \<open>(\d\d\d\d)-(1[0-2]|0[1-9]|[1-9])-(3[0-1]|[1-2]\d|0[1-9]|[1-9]| [1-9])\<close>, which has to
  match from the start of \<open>s\<close> and leave nothing over, and then builds the date, which
  fails for the year 0 and for a day the month does not have. On the code points of the
  model \<open>\d\<close> is one of the ten ASCII digits. A date is kept as (year, month, day).
\<close>

definition isdigit :: "char \<Rightarrow> bool" where
  "isdigit c = (48 \<le> code c \<and> code c \<le> 57)"

definition digits_value :: "string \<Rightarrow> int" where
  "digits_value s = foldl (\<lambda>n c. 10 * n + (int (code c) - 48)) 0 s"

definition month_field :: "string \<Rightarrow> nat option" where
  "month_field s =
     (if list_all isdigit s \<and> (length s = 1 \<or> length s = 2)
         \<and> 1 \<le> digits_value s \<and> digits_value s \<le> 12
      then Some (nat (digits_value s)) else None)"

definition day_field :: "string \<Rightarrow> nat option" where
  "day_field s =
     (if list_all isdigit s \<and> (length s = 1 \<or> length s = 2)
         \<and> 1 \<le> digits_value s \<and> digits_value s \<le> 31
      then Some (nat (digits_value s))
      else if length s = 2 \<and> hd s = CHR '' '' \<and> isdigit (s ! 1) \<and> s ! 1 \<noteq> CHR ''0''
      then Some (nat (digits_value (tl s)))
      else None)"

definition is_leap :: "int \<Rightarrow> bool" where
  "is_leap year = (year mod 4 = 0 \<and> (year mod 100 \<noteq> 0 \<or> year mod 400 = 0))"

definition days_in_month :: "int \<Rightarrow> nat \<Rightarrow> nat" where
  "days_in_month year month =
     (if month = 2 \<and> is_leap year then 29
      else [0, 31, 28, 31, 30, 31, 30, 31, 31, 30, 31, 30, 31] ! month)"

definition days_before_month :: "int \<Rightarrow> nat \<Rightarrow> nat" where
  "days_before_month year month =
     [0, 0, 31, 59, 90, 120, 151, 181, 212, 243, 273, 304, 334] ! month
     + (if 2 < month \<and> is_leap year then 1 else 0)"

definition days_before_year :: "int \<Rightarrow> int" where
  "days_before_year year =
     (let y = year - 1 in y * 365 + y div 4 - y div 100 + y div 400)"

text \<open>\<open>date.toordinal()\<close>: day 1 is the first of January of the year 1.\<close>

definition toordinal :: "int \<times> nat \<times> nat \<Rightarrow> int" where
  "toordinal d = (case d of (year, month, day) \<Rightarrow>
     days_before_year year + int (days_before_month year month) + int day)"

definition strptime_ymd :: "string \<Rightarrow> (int \<times> nat \<times> nat) option" where
  "strptime_ymd s =
     (let y = take 4 s; r = drop 4 s
      in if length y = 4 \<and> list_all isdigit y \<and> r \<noteq> [] \<and> hd r = CHR ''-''
         then (let m = takeWhile isdigit (tl r); r2 = dropWhile isdigit (tl r)
               in if r2 \<noteq> [] \<and> hd r2 = CHR ''-''
                  then (case month_field m of
                          None \<Rightarrow> None
                        | Some month \<Rightarrow>
                           (case day_field (tl r2) of
                              None \<Rightarrow> None
                            | Some day \<Rightarrow>
                               if 1 \<le> digits_value y \<and> day \<le> days_in_month (digits_value y) month
                               then Some (digits_value y, month, day) else None))
                  else None)
         else None)"

subsection \<open>The score\<close>

text \<open>
  The recency bonus. \<open>today\<close> is the ordinal of the local date of \<open>datetime.now()\<close>; the
  date parsed is a midnight, so \<open>(datetime.now() - pub_date).days\<close> is the difference of
  the two ordinals. \<open>None\<close> stands for the exception that the \<open>try\<close> swallows: the entry
  is \<open>None\<close>, which has no slice, or its first ten characters are not a date.
\<close>

definition recency_score :: "string option \<Rightarrow> int \<Rightarrow> int option" where
  "recency_score published today =
     (case published of
        None \<Rightarrow> None
      | Some p \<Rightarrow>
         (case strptime_ymd (take 10 p) of
            None \<Rightarrow> None
          | Some pub_date \<Rightarrow>
             (let days_ago = today - toordinal pub_date in Some (max 0 (20 - days_ago)))))"

definition credible_sources :: "string list" where
  "credible_sources =
     [''reuters'', ''bloomberg'', ''wall street journal'', ''financial times'',
      ''techcrunch'', ''forbes'', ''business insider'', ''cnbc'', ''bbc'',
      ''associated press'', ''axios'', ''politico'']"

definition business_keywords :: "string list" where
  "business_keywords =
     [''ceo'', ''executive'', ''company'', ''business'', ''announces'', ''appointed'',
      ''leadership'', ''interview'', ''strategy'', ''investment'', ''funding'',
      ''merger'', ''acquisition'', ''partnership'', ''conference'', ''speaking'']"

definition negative_keywords :: "string list" where
  "negative_keywords = [''sports'', ''entertainment'', ''celebrity'', ''gossip'']"

text \<open>The loop over the credible sources, left at the first one found in the source name.\<close>

fun credibility_loop :: "string list \<Rightarrow> string \<Rightarrow> int \<Rightarrow> int" where
  "credibility_loop [] source_name score = score"
| "credibility_loop (credible_source # rest) source_name score =
     (if substr_in credible_source source_name then score + 10
      else credibility_loop rest source_name score)"

text \<open>The two keyword loops: \<open>delta\<close> is added for every keyword found in the content.\<close>

fun keyword_loop :: "string list \<Rightarrow> string \<Rightarrow> int \<Rightarrow> int \<Rightarrow> int" where
  "keyword_loop [] content_text delta score = score"
| "keyword_loop (keyword # rest) content_text delta score =
     keyword_loop rest content_text delta
       (if substr_in keyword content_text then score + delta else score)"

text \<open>
  The score. The result is \<open>None\<close> where the call raises: the source entry is \<open>None\<close>,
  which has no \<open>lower\<close>. An absent company name is the empty string.
\<close>

definition calculate_relevance_score :: "article \<Rightarrow> string \<Rightarrow> string \<Rightarrow> int \<Rightarrow> int option" where
  "calculate_relevance_score a person_name company_name today =
     (let person_name_lower = lower person_name;
          company_name_lower = (if company_name \<noteq> [] then lower company_name else []);
          score1 = (if substr_in person_name_lower (content a) then 30 else 0);
          score2 = (if company_name_lower \<noteq> [] \<and> substr_in company_name_lower (content a)
                    then score1 + 20 else score1);
          score3 = (case recency_score (published_at a) today of
                      Some recency \<Rightarrow> score2 + recency
                    | None \<Rightarrow> score2)
      in case source a of
           None \<Rightarrow> None
         | Some source_text \<Rightarrow>
            (let score4 = credibility_loop credible_sources (lower source_text) score3;
                 score5 = keyword_loop business_keywords (content a) 2 score4;
                 score6 = keyword_loop negative_keywords (content a) (- 5) score5
             in Some (max 0 score6)))"

text \<open>The number of keywords of a list that occur in a text; the lists name no keyword twice.\<close>

definition hits :: "string list \<Rightarrow> string \<Rightarrow> nat" where
  "hits keywords content_text = length (filter (\<lambda>k. substr_in k content_text) keywords)"

text \<open>The terms of the score that do not come from the business keywords.\<close>

definition person_bonus :: "article \<Rightarrow> string \<Rightarrow> int" where
  "person_bonus a person_name = (if substr_in (lower person_name) (content a) then 30 else 0)"

definition company_bonus :: "article \<Rightarrow> string \<Rightarrow> int" where
  "company_bonus a company_name =
     (if company_name \<noteq> [] \<and> substr_in (lower company_name) (content a) then 20 else 0)"

definition source_bonus :: "string \<Rightarrow> int" where
  "source_bonus source_text =
     (if \<exists>c \<in> set credible_sources. substr_in c (lower source_text) then 10 else 0)"

definition recency_bonus :: "article \<Rightarrow> int \<Rightarrow> int" where
  "recency_bonus a today =
     (case recency_score (published_at a) today of Some recency \<Rightarrow> recency | None \<Rightarrow> 0)"

text \<open>
  The item of the scenario: the title \<open>Acme announces new CEO\<close>, with any description,
  publication time and source name.
\<close>

definition acme_item :: "string option \<Rightarrow> string \<Rightarrow> string \<Rightarrow> article" where
  "acme_item d pub src =
     \<lparr>title = Some ''Acme announces new CEO'', description = d,
      published_at = Some pub, source = Some src\<rparr>"

section \<open>The search for a profile (\<open>LinkedInScraper.search_linkedin_profile\<close>)\<close>

text \<open>
  Google as one call of \<open>search_linkedin_profile\<close> sees it: the answer to the request
  number \<open>n\<close> of the call, counted from 0. An answer is a fault, which stands for an
  exception raised while the request is made or its body read, or a status code with
  the URLs that \<open>_extract_linkedin_urls_from_soup\<close> finds in the body.
\<close>

datatype response = Fault | Http nat "string list"

text \<open>
  A request to Google is recorded by the query and by the parameters that follow the
  quoted query in the search URL.
\<close>

definition search_url_parameters :: "string list" where
  "search_url_parameters = [''&num=10'', ''&num=10&hl=en&lr=lang_en'', ''&ie=utf-8&oe=utf-8'']"

text \<open>The loop that removes duplicates and keeps the order.\<close>

fun unique_urls :: "string list \<Rightarrow> string list \<Rightarrow> string list" where
  "unique_urls seen [] = []"
| "unique_urls seen (url # urls) =
     (if url \<in> set seen then unique_urls seen urls else url # unique_urls (url # seen) urls)"

text \<open>
  The loop over the search URLs of one query. \<open>sent\<close> lists the requests made to Google
  so far in the call; the result is the list returned and the requests made by then.
\<close>

fun search_url_loop ::
  "string \<Rightarrow> string list \<Rightarrow> (nat \<Rightarrow> response) \<Rightarrow> (string \<times> string) list
     \<Rightarrow> string list \<times> (string \<times> string) list" where
  "search_url_loop query [] google sent = ([], sent)"
| "search_url_loop query (parameters # rest) google sent =
     (case google (length sent) of
        Fault \<Rightarrow> ([], sent @ [(query, parameters)])
      | Http status_code found_urls \<Rightarrow>
          if status_code = 429 then ([], sent @ [(query, parameters)])
          else if status_code \<noteq> 200
          then search_url_loop query rest google (sent @ [(query, parameters)])
          else if found_urls \<noteq> []
          then (take 5 (unique_urls [] found_urls), sent @ [(query, parameters)])
          else search_url_loop query rest google (sent @ [(query, parameters)]))"

definition google_search_linkedin ::
  "string \<Rightarrow> (nat \<Rightarrow> response) \<Rightarrow> (string \<times> string) list
     \<Rightarrow> string list \<times> (string \<times> string) list" where
  "google_search_linkedin query google sent =
     search_url_loop query search_url_parameters google sent"

text \<open>The queries of Method 1, the one with the company left out for an empty company.\<close>

definition search_queries :: "string \<Rightarrow> string \<Rightarrow> string list" where
  "search_queries person_name company_name =
     [[CHR 0x22] @ person_name @ [CHR 0x22] @ '' site:linkedin.com/in/'']
     @ (if company_name \<noteq> []
        then [[CHR 0x22] @ person_name @ [CHR 0x22] @ '' site:linkedin.com/in/ ''
              @ [CHR 0x22] @ company_name @ [CHR 0x22]]
        else [])
     @ [[CHR 0x22] @ person_name @ [CHR 0x22] @ '' linkedin profile'']"

text \<open>
  The loop over the queries, up to the first query for which Google gives a list that is
  not empty; every path from there returns without another request.
\<close>

fun search_attempts ::
  "string list \<Rightarrow> (nat \<Rightarrow> response) \<Rightarrow> (string \<times> string) list
     \<Rightarrow> string list \<times> (string \<times> string) list" where
  "search_attempts [] google sent = ([], sent)"
| "search_attempts (search_query # rest) google sent =
     (case google_search_linkedin search_query google sent of
        (linkedin_urls, sent_now) \<Rightarrow>
          if linkedin_urls \<noteq> [] then (linkedin_urls, sent_now)
          else search_attempts rest google sent_now)"

text \<open>
  Method 0 and Method 1 of \<open>search_linkedin_profile\<close>, with the requests that the call
  makes to Google; the methods that follow make none. The outcome is the URL of the
  manual database, or the list that Google gave, or nothing yet.
\<close>

datatype outcome = In_Database string | By_Google "string list" | Nothing_Yet

definition primary_search ::
  "string \<Rightarrow> string \<Rightarrow> (nat \<Rightarrow> response) \<Rightarrow> outcome \<times> (string \<times> string) list" where
  "primary_search person_name company_name google =
     (case check_manual_database person_name company_name of
        Some manual_result \<Rightarrow>
          if manual_result \<noteq> [] then (In_Database manual_result, [])
          else (case search_attempts (search_queries person_name company_name) google [] of
                  (linkedin_urls, sent) \<Rightarrow>
                    (if linkedin_urls \<noteq> [] then By_Google linkedin_urls else Nothing_Yet, sent))
      | None \<Rightarrow>
          (case search_attempts (search_queries person_name company_name) google [] of
             (linkedin_urls, sent) \<Rightarrow>
               (if linkedin_urls \<noteq> [] then By_Google linkedin_urls else Nothing_Yet, sent)))"

text \<open>
  The requirement of the specification on the requests of one call: a request that
  Google answers with the status 429 is the last one.
\<close>

definition rate_limited :: "response \<Rightarrow> bool" where
  "rate_limited r = (case r of Fault \<Rightarrow> False | Http status_code found_urls \<Rightarrow> status_code = 429)"

definition stops_at_rate_limit :: "(nat \<Rightarrow> response) \<Rightarrow> (string \<times> string) list \<Rightarrow> bool" where
  "stops_at_rate_limit google sent =
     list_all (\<lambda>n. rate_limited (google n) \<longrightarrow> Suc n = length sent) [0..<length sent]"

section \<open>Scraping a profile (\<open>LinkedInScraper.scrape_profile\<close>)\<close>






subsection \<open>\<open>create_mock_profile_data\<close>\<close>




subsection \<open>\<open>scrape_profile\<close>\<close>







section \<open>Verification\<close>

subsection \<open>The static identity table\<close>









subsection \<open>The identity matcher\<close>

lemma count_matching_words_filter:
  "count_matching_words ws pw m = m + length (filter (\<lambda>t. 1 < length t \<and> t \<in> set pw) ws)"
  by (induction ws arbitrary: m) auto

lemma token_overlap_rule2: "token_overlap_match sn pn = rule2_accepts sn pn"
  by (simp add: token_overlap_match_def rule2_accepts_def count_matching_words_filter Let_def)

lemma split_j_smith: "split_ws ''j smith'' = [''j'', ''smith'']"
  by code_simp

text \<open>
  Claim C5. Method 2 of the matcher accepts exactly when, of the query's tokens longer
  than one character, at least \<open>min(2, token_count)\<close> occur among the tokens of the
  candidate's known name, where \<open>token_count\<close> counts every token of the query, the
  one-character ones too. The matcher as a whole accepts exactly when both names are
  non-empty and rule 1, this rule 2 or rule 3 holds. For the query "J Smith" the threshold
  is 2 and "smith" is the only token that can match, so rule 2 accepts no candidate.
\<close>

theorem token_overlap_rule:
  "token_overlap_match query_name known_name = rule2_accepts query_name known_name
   \<and> validate_profile_match profile_data searched_name searched_company =
       (let profile_name = strip (lower (get_str profile_data ''name''));
            searched_name_lower = strip (lower searched_name)
        in profile_name \<noteq> [] \<and> searched_name_lower \<noteq> [] \<and>
           (profile_name = searched_name_lower \<or>
            rule2_accepts searched_name_lower profile_name \<or>
            initials_last_name_match searched_name_lower profile_name))
   \<and> min 2 (length (split_ws ''j smith'')) = 2
   \<and> filter (\<lambda>t. 1 < length t) (split_ws ''j smith'') = [''smith'']
   \<and> token_overlap_match ''j smith'' known_name = False"
proof -
  have "validate_profile_match profile_data searched_name searched_company =
       (let profile_name = strip (lower (get_str profile_data ''name''));
            searched_name_lower = strip (lower searched_name)
        in profile_name \<noteq> [] \<and> searched_name_lower \<noteq> [] \<and>
           (profile_name = searched_name_lower \<or>
            rule2_accepts searched_name_lower profile_name \<or>
            initials_last_name_match searched_name_lower profile_name))"
    by (auto simp: validate_profile_match_def Let_def token_overlap_rule2)
  moreover have "token_overlap_match ''j smith'' known_name = False"
    by (simp add: token_overlap_rule2 rule2_accepts_def split_j_smith Let_def)
  ultimately show ?thesis
    by (simp add: token_overlap_rule2 split_j_smith)
qed

lemma acme_profile_name:
  "strip (lower (get_str [(''name'', Str ''Acme Corp Official''), (''company'', Str ''Acme Corp'')]
      ''name'')) = ''acme corp official''"
  by code_simp

lemma acme_searched_name: "strip (lower ''Acme Corp'') = ''acme corp''"
  by code_simp

lemma acme_token_overlap: "token_overlap_match ''acme corp'' ''acme corp official''"
  by code_simp

text \<open>
  Claim C4, as stated, fails: for the query name "Acme Corp" and the candidate with known
  name "Acme Corp Official" and organization "Acme Corp", the matcher accepts, with the
  organization queried as well as without it.
\<close>

theorem acme_corp_not_rejected:
  "validate_profile_match
     [(''name'', Str ''Acme Corp Official''), (''company'', Str ''Acme Corp'')]
     ''Acme Corp'' ''Acme Corp''
   \<and> validate_profile_match
     [(''name'', Str ''Acme Corp Official''), (''company'', Str ''Acme Corp'')]
     ''Acme Corp'' []"
  by code_simp

text \<open>
  Claim C4, amended. For the query name "Acme Corp" and that candidate, whatever
  organization is queried, the matcher accepts: rule 1 fails (the normalized names
  differ), and rule 2 fires, since both query tokens "acme" and "corp" are among the
  tokens of the known name; rules 3 and 4 are not reached.
\<close>

theorem acme_corp_accepted_by_rule2:
  "validate_profile_match
     [(''name'', Str ''Acme Corp Official''), (''company'', Str ''Acme Corp'')]
     ''Acme Corp'' searched_company
   \<and> strip (lower (get_str [(''name'', Str ''Acme Corp Official''), (''company'', Str ''Acme Corp'')]
        ''name'')) \<noteq> strip (lower ''Acme Corp'')
   \<and> token_overlap_match (strip (lower ''Acme Corp''))
       (strip (lower (get_str
          [(''name'', Str ''Acme Corp Official''), (''company'', Str ''Acme Corp'')] ''name'')))"
  by (simp add: validate_profile_match_def Let_def acme_profile_name acme_searched_name
      acme_token_overlap)

subsection \<open>Candidate clean-up\<close>












lemma find_from_28:
  "find_from d (''https://www.linkedin.com/in/'' @ r) 28 = map_option (\<lambda>i. i + 28) (find_sub d r)"
  by (simp add: find_from_def)













text \<open>The arguments on which the model does not follow the clean-up.\<close>

lemma clean_linkedin_url_beyond:
  "(clean_linkedin_url x = Beyond) = (\<exists>s. x = Some s \<and> s \<noteq> [] \<and> unquote s = None)"
  by (auto simp: clean_linkedin_url_def split: option.splits)



text \<open>
  Claim C7, as stated, fails: the anchor
  \<open>/url?q=https%3A%2F%2Fexample.com%2Fin%2Fjdoe%26sa%3DU\<close> yields no candidate at all,
  neither through the extraction of the page nor through the clean-up applied to the raw or
  to the unwrapped and decoded string, because the marker \<open>linkedin.com/in/\<close> does not
  occur in it.
\<close>

theorem example_host_candidate_dropped:
  "extract_linkedin_urls_from_soup
     \<lparr>anchor_hrefs = [''/url?q=https%3A%2F%2Fexample.com%2Fin%2Fjdoe%26sa%3DU''],
      text_matches = [], selected_hrefs = []\<rparr> = Modelled []
   \<and> clean_linkedin_url (Some ''/url?q=https%3A%2F%2Fexample.com%2Fin%2Fjdoe%26sa%3DU'')
       = Modelled None
   \<and> clean_linkedin_url (Some ''https://example.com/in/jdoe&sa=U'') = Modelled None"
  by code_simp

text \<open>
  Claim C7, amended. A page whose one anchor has the \<open>href\<close>
  \<open>/url?q=https%3A%2F%2Flinkedin.com%2Fin%2Fjdoe%26sa%3DU\<close>, the string of the claim on
  the host \<open>linkedin.com\<close>, yields the canonical profile URL of the identifier \<open>jdoe\<close>,
  whether or not a result selector selects the anchor too: unwrapping the redirector and
  decoding the escapes gives \<open>https://linkedin.com/in/jdoe&sa=U\<close>, and the username
  after the marker ends at the first delimiter, here \<open>&\<close>. With the string of the claim
  itself, on the host \<open>example.com\<close>, the page yields no candidate.
\<close>

theorem redirect_candidate_canonicalized:
  "extract_linkedin_urls_from_soup
     \<lparr>anchor_hrefs = [''/url?q=https%3A%2F%2Flinkedin.com%2Fin%2Fjdoe%26sa%3DU''],
      text_matches = [], selected_hrefs = []\<rparr>
     = Modelled [''https://www.linkedin.com/in/jdoe/'']
   \<and> extract_linkedin_urls_from_soup
     \<lparr>anchor_hrefs = [''/url?q=https%3A%2F%2Flinkedin.com%2Fin%2Fjdoe%26sa%3DU''],
      text_matches = [],
      selected_hrefs = [''/url?q=https%3A%2F%2Flinkedin.com%2Fin%2Fjdoe%26sa%3DU'']\<rparr>
     = Modelled [''https://www.linkedin.com/in/jdoe/'']
   \<and> unquote (split_on ''&''
         (split_on ''/url?q='' ''/url?q=https%3A%2F%2Flinkedin.com%2Fin%2Fjdoe%26sa%3DU'' ! 1) ! 0)
       = Some ''https://linkedin.com/in/jdoe&sa=U''
   \<and> profile_username ''https://linkedin.com/in/jdoe&sa=U'' 8 = ''jdoe''
   \<and> extract_linkedin_urls_from_soup
     \<lparr>anchor_hrefs = [''/url?q=https%3A%2F%2Fexample.com%2Fin%2Fjdoe%26sa%3DU''],
      text_matches = [], selected_hrefs = []\<rparr> = Modelled []"
  by code_simp

subsection \<open>Nickname tables\<close>

lemma dict_get_mem: "dict_get items a = Some b \<Longrightarrow> (a, b) \<in> set items"
proof -
  assume "dict_get items a = Some b"
  then have "map_of (rev items) a = Some b" by (simp only: dict_get_def)
  then have "(a, b) \<in> set (rev items)" by (rule map_of_SomeD)
  then show ?thesis by (simp only: set_rev)
qed

lemma list_all_pairD: "list_all (\<lambda>(a, b). P a b) xs \<Longrightarrow> (a, b) \<in> set xs \<Longrightarrow> P a b"
  by (induction xs) auto

lemma construct_map_one_way:
  "list_all (\<lambda>(a, b). a = b \<or> dict_get construct_nickname_map b = None) construct_nickname_map"
  by code_simp

lemma matcher_map_back:
  "list_all (\<lambda>(a, b). a = ''steve'' \<or> b = ''steve'' \<or> dict_get matcher_nickname_map b = Some a)
     matcher_nickname_map"
  by code_simp

text \<open>
  Claim C3, as stated, fails for both tables the program loads. The table of the URL
  constructor maps \<open>david\<close> to \<open>dave\<close> and has no entry for \<open>dave\<close>; the table of the
  matcher maps \<open>steven\<close> to \<open>steve\<close> and \<open>steve\<close> to \<open>stephen\<close>.
\<close>

theorem nickname_tables_not_symmetric:
  "dict_get construct_nickname_map ''david'' = Some ''dave''
   \<and> dict_get construct_nickname_map ''dave'' = None
   \<and> dict_get matcher_nickname_map ''steven'' = Some ''steve''
   \<and> dict_get matcher_nickname_map ''steve'' = Some ''stephen''"
  by code_simp

text \<open>
  Claim C3, amended. The table of the URL constructor is directed: whenever it maps a
  token \<open>a\<close> to a different token \<open>b\<close>, it has no entry for \<open>b\<close>. The table of the matcher
  is symmetric on every pair that does not involve \<open>steve\<close>: whenever it maps \<open>a\<close> to
  \<open>b\<close> and neither is \<open>steve\<close>, it maps \<open>b\<close> to \<open>a\<close>.
\<close>

theorem nickname_tables_direction:
  "(dict_get construct_nickname_map a = Some b \<and> a \<noteq> b
      \<longrightarrow> dict_get construct_nickname_map b = None)
   \<and> (dict_get matcher_nickname_map a = Some b \<and> a \<noteq> ''steve'' \<and> b \<noteq> ''steve''
      \<longrightarrow> dict_get matcher_nickname_map b = Some a)"
proof (rule conjI; rule impI; elim conjE)
  assume g: "dict_get construct_nickname_map a = Some b" and ne: "a \<noteq> b"
  from list_all_pairD[OF construct_map_one_way dict_get_mem[OF g]] ne
  show "dict_get construct_nickname_map b = None" by blast
next
  assume g: "dict_get matcher_nickname_map a = Some b"
    and na: "a \<noteq> ''steve''" and nb: "b \<noteq> ''steve''"
  from list_all_pairD[OF matcher_map_back dict_get_mem[OF g]] na nb
  show "dict_get matcher_nickname_map b = Some a" by blast
qed

theorem nickname_tables_direction_witness:
  "dict_get construct_nickname_map ''david'' = Some ''dave'' \<and> ''david'' \<noteq> ''dave''
   \<and> dict_get construct_nickname_map ''dave'' = None
   \<and> dict_get matcher_nickname_map ''david'' = Some ''dave''
   \<and> ''david'' \<noteq> ''steve'' \<and> ''dave'' \<noteq> ''steve''
   \<and> dict_get matcher_nickname_map ''dave'' = Some ''david''"
proof -
  have c: "dict_get construct_nickname_map ''david'' = Some ''dave''" by code_simp
  have m: "dict_get matcher_nickname_map ''david'' = Some ''dave''" by code_simp
  have n1: "''david'' \<noteq> ''dave''" by simp
  have n2: "''david'' \<noteq> ''steve''" by simp
  have n3: "''dave'' \<noteq> ''steve''" by simp
  note t = nickname_tables_direction[of "''david''" "''dave''"]
  have c2: "dict_get construct_nickname_map ''dave'' = None"
    by (rule mp[OF conjunct1[OF t]]) (intro conjI c n1)
  have m2: "dict_get matcher_nickname_map ''dave'' = Some ''david''"
    by (rule mp[OF conjunct2[OF t]]) (intro conjI m n2 n3)
  show ?thesis by (intro conjI c n1 c2 m n2 n3 m2)
qed

subsection \<open>The relevance scorer\<close>

lemma keyword_loop_hits: "keyword_loop ks c d s = s + d * int (hits ks c)"
  by (induction ks arbitrary: s) (simp_all add: hits_def algebra_simps)

lemma credibility_loop_bonus:
  "credibility_loop cs src s = s + (if \<exists>c \<in> set cs. substr_in c src then 10 else 0)"
  by (induction cs) auto

lemma lower_empty: "(lower s = []) = (s = [])"
  by (simp add: lower_def)

text \<open>The score as a sum of its terms.\<close>

lemma score_closed_form:
  "calculate_relevance_score a p c today =
     (case source a of
        None \<Rightarrow> None
      | Some src \<Rightarrow>
         Some (max 0 (person_bonus a p + company_bonus a c + recency_bonus a today
                      + source_bonus src
                      + 2 * int (hits business_keywords (content a))
                      - 5 * int (hits negative_keywords (content a)))))"
  unfolding calculate_relevance_score_def Let_def keyword_loop_hits credibility_loop_bonus
    person_bonus_def company_bonus_def recency_bonus_def source_bonus_def
  by (simp add: lower_empty split: option.splits)

lemma substr_in_Nil: "substr_in [] s"
  by (cases s) simp_all

lemma substr_in_append: "substr_in k x \<Longrightarrow> substr_in k (x @ y)"
proof (induction x)
  case Nil
  then show ?case by (simp add: substr_in_Nil)
next
  case (Cons c cs)
  have "prefix k (c # cs) \<Longrightarrow> prefix k ((c # cs) @ y)" by (rule prefix_prefix)
  with Cons show ?case by auto
qed

lemma length_filter_mono:
  "(\<And>k. k \<in> set ks \<Longrightarrow> P k \<Longrightarrow> Q k) \<Longrightarrow> length (filter P ks) \<le> length (filter Q ks)"
  by (induction ks) auto

lemma hits_append: "hits ks x \<le> hits ks (x @ y)"
  unfolding hits_def by (rule length_filter_mono) (rule substr_in_append)

lemma hits_le_length: "hits ks x \<le> length ks"
  unfolding hits_def by (rule length_filter_le)

text \<open>
  Claim C2, as stated, fails: with every other field, the person, the organization and
  the day fixed, the title \<open>ceo company gossip\<close> holds two business keywords and the
  title \<open>ceo\<close> one, and yet it scores 19 against 22, because a negative keyword came
  with the second business keyword.
\<close>

theorem more_keywords_lower_score:
  "hits business_keywords
     (content \<lparr>title = Some ''ceo'', description = Some [],
               published_at = Some ''2024-03-15T09:30:00Z'', source = Some ''Example News''\<rparr>) = 1
   \<and> hits business_keywords
     (content \<lparr>title = Some ''ceo company gossip'', description = Some [],
               published_at = Some ''2024-03-15T09:30:00Z'', source = Some ''Example News''\<rparr>) = 2
   \<and> calculate_relevance_score
       \<lparr>title = Some ''ceo'', description = Some [],
        published_at = Some ''2024-03-15T09:30:00Z'', source = Some ''Example News''\<rparr>
       ''Jane Doe'' ''Acme Corp'' (toordinal (2024, 3, 15)) = Some 22
   \<and> calculate_relevance_score
       \<lparr>title = Some ''ceo company gossip'', description = Some [],
        published_at = Some ''2024-03-15T09:30:00Z'', source = Some ''Example News''\<rparr>
       ''Jane Doe'' ''Acme Corp'' (toordinal (2024, 3, 15)) = Some 19"
  by code_simp

text \<open>
  Claim C2, amended. Every item whose source name is a string gets a score, for every
  person, organization and day, and the score is not negative. It is no greater than the
  score of any item with the same source name and the same publication time, scored for
  the same person and organization on the same day, for which the person term, the
  organization term and the number of negative keywords found are the same, and in which
  no fewer business keywords are found.
\<close>

theorem relevance_score_monotone:
  assumes "source a = Some src"
  shows "\<exists>s. calculate_relevance_score a p c today = Some s \<and> 0 \<le> s
           \<and> (source a' = Some src \<and> published_at a' = published_at a
                \<and> person_bonus a' p = person_bonus a p
                \<and> company_bonus a' c = company_bonus a c
                \<and> hits negative_keywords (content a') = hits negative_keywords (content a)
                \<and> hits business_keywords (content a) \<le> hits business_keywords (content a')
              \<longrightarrow> (\<exists>s'. calculate_relevance_score a' p c today = Some s' \<and> s \<le> s'))"
proof -
  let ?raw = "\<lambda>x. person_bonus x p + company_bonus x c + recency_bonus x today
                  + source_bonus src
                  + 2 * int (hits business_keywords (content x))
                  - 5 * int (hits negative_keywords (content x))"
  have sa: "calculate_relevance_score a p c today = Some (max 0 (?raw a))"
    using assms by (simp add: score_closed_form)
  have mono: "\<exists>s'. calculate_relevance_score a' p c today = Some s' \<and> max 0 (?raw a) \<le> s'"
    if h: "source a' = Some src \<and> published_at a' = published_at a
           \<and> person_bonus a' p = person_bonus a p
           \<and> company_bonus a' c = company_bonus a c
           \<and> hits negative_keywords (content a') = hits negative_keywords (content a)
           \<and> hits business_keywords (content a) \<le> hits business_keywords (content a')"
  proof -
    from h have r: "recency_bonus a' today = recency_bonus a today"
      by (simp add: recency_bonus_def)
    from h have sb: "calculate_relevance_score a' p c today = Some (max 0 (?raw a'))"
      by (simp add: score_closed_form)
    from h r have "?raw a \<le> ?raw a'" by simp
    then have "max 0 (?raw a) \<le> max 0 (?raw a')" by simp
    with sb show ?thesis by blast
  qed
  have "0 \<le> max 0 (?raw a)" by simp
  with sa mono show ?thesis by blast
qed

theorem relevance_score_monotone_witness:
  "source \<lparr>title = Some ''ceo'', description = Some [],
           published_at = Some ''2024-03-15'', source = Some ''Reuters''\<rparr> = Some ''Reuters''
   \<and> calculate_relevance_score
        \<lparr>title = Some ''ceo'', description = Some [],
         published_at = Some ''2024-03-15'', source = Some ''Reuters''\<rparr>
        ''Jane Doe'' ''Acme Corp'' 738960 = Some 32
   \<and> hits business_keywords
       (content \<lparr>title = Some ''ceo'', description = Some [],
                 published_at = Some ''2024-03-15'', source = Some ''Reuters''\<rparr>)
     \<le> hits business_keywords
       (content \<lparr>title = Some ''ceo company'', description = Some [],
                 published_at = Some ''2024-03-15'', source = Some ''Reuters''\<rparr>)
   \<and> (\<exists>s'. calculate_relevance_score
               \<lparr>title = Some ''ceo company'', description = Some [],
                published_at = Some ''2024-03-15'', source = Some ''Reuters''\<rparr>
               ''Jane Doe'' ''Acme Corp'' 738960 = Some s'
           \<and> 32 \<le> s')"
proof -
  let ?a = "\<lparr>title = Some ''ceo'', description = Some [],
             published_at = Some ''2024-03-15'', source = Some ''Reuters''\<rparr>"
  let ?b = "\<lparr>title = Some ''ceo company'', description = Some [],
             published_at = Some ''2024-03-15'', source = Some ''Reuters''\<rparr>"
  have h1: "source ?a = Some ''Reuters''" by code_simp
  have h2: "source ?b = Some ''Reuters''" by code_simp
  have h3: "published_at ?b = published_at ?a" by code_simp
  have h4: "person_bonus ?b ''Jane Doe'' = person_bonus ?a ''Jane Doe''" by code_simp
  have h5: "company_bonus ?b ''Acme Corp'' = company_bonus ?a ''Acme Corp''" by code_simp
  have h6: "hits negative_keywords (content ?b) = hits negative_keywords (content ?a)"
    by code_simp
  have h7: "hits business_keywords (content ?a) \<le> hits business_keywords (content ?b)"
    by code_simp
  have v: "calculate_relevance_score ?a ''Jane Doe'' ''Acme Corp'' 738960 = Some 32"
    by code_simp
  from relevance_score_monotone[OF h1, of "''Jane Doe''" "''Acme Corp''" 738960 ?b]
  obtain s where s: "calculate_relevance_score ?a ''Jane Doe'' ''Acme Corp'' 738960 = Some s"
    and imp: "source ?b = Some ''Reuters'' \<and> published_at ?b = published_at ?a
                \<and> person_bonus ?b ''Jane Doe'' = person_bonus ?a ''Jane Doe''
                \<and> company_bonus ?b ''Acme Corp'' = company_bonus ?a ''Acme Corp''
                \<and> hits negative_keywords (content ?b) = hits negative_keywords (content ?a)
                \<and> hits business_keywords (content ?a) \<le> hits business_keywords (content ?b)
              \<longrightarrow> (\<exists>s'. calculate_relevance_score ?b ''Jane Doe'' ''Acme Corp'' 738960 = Some s'
                        \<and> s \<le> s')"
    by blast
  from s v have s32: "s = 32" by simp
  have "\<exists>s'. calculate_relevance_score ?b ''Jane Doe'' ''Acme Corp'' 738960 = Some s' \<and> s \<le> s'"
    by (rule mp[OF imp]) (intro conjI h2 h3 h4 h5 h6 h7)
  then have b: "\<exists>s'. calculate_relevance_score ?b ''Jane Doe'' ''Acme Corp'' 738960 = Some s'
                  \<and> 32 \<le> s'"
    unfolding s32 .
  show ?thesis by (intro conjI h1 v h7 b)
qed

lemma lower_append: "lower (x @ y) = lower x @ lower y"
  by (simp add: lower_def)

lemma acme_content:
  "content (acme_item d pub src) = lower ''Acme announces new CEO '' @ lower (fstr d)"
  by (simp add: content_def acme_item_def fstr_def lower_def)

lemma acme_content_extended:
  "content (acme_item (Some (fstr d @ extra)) pub src)
     = content (acme_item d pub src) @ lower extra"
  by (simp add: acme_content fstr_def lower_append)

lemma acme_title_lower: "lower ''Acme announces new CEO '' = ''acme announces new ceo ''"
  by code_simp

lemma acme_title_keywords: "hits business_keywords ''acme announces new ceo '' = 2"
  by code_simp

lemma acme_business_hits: "2 \<le> hits business_keywords (content (acme_item d pub src))"
proof -
  have "hits business_keywords ''acme announces new ceo ''
          \<le> hits business_keywords (''acme announces new ceo '' @ lower (fstr d))"
    by (rule hits_append)
  then show ?thesis
    unfolding acme_content acme_title_lower acme_title_keywords .
qed

lemma negative_hits_le: "hits negative_keywords x \<le> 4"
proof -
  have "length negative_keywords = 4" by (simp add: negative_keywords_def)
  with hits_le_length[of negative_keywords x] show ?thesis by simp
qed

lemma acme_corp_lower: "lower ''Acme Corp'' = ''acme corp''"
  by code_simp

lemma acme_corp_in_title:
  "substr_in ''acme corp'' (''acme announces new ceo '' @ y) = substr_in ''acme corp'' y"
  by simp

lemma acme_company_bonus:
  "company_bonus (acme_item d pub src) ''Acme Corp''
     = (if substr_in ''acme corp'' (lower (fstr d)) then 20 else 0)"
  unfolding company_bonus_def acme_content acme_title_lower acme_corp_lower acme_corp_in_title
  by simp

text \<open>
  Claim C8, as stated, fails: the organization term is given only when the lower-cased
  name of the organization, \<open>acme corp\<close>, occurs in the lower-cased title and
  description, and the title \<open>Acme announces new CEO\<close> does not hold it. With an empty
  description and a source outside the list, published on the day of the evaluation, the
  item scores 24: 20 for the day and 2 for each of the two keywords found, \<open>ceo\<close> and
  \<open>announces\<close>, and not 44.
\<close>

theorem acme_title_no_organization_bonus:
  "calculate_relevance_score
     \<lparr>title = Some ''Acme announces new CEO'', description = Some [],
      published_at = Some ''2024-03-15T09:30:00Z'', source = Some ''Example News''\<rparr>
     ''Jane Doe'' ''Acme Corp'' (toordinal (2024, 3, 15)) = Some 24
   \<and> hits business_keywords
       (content \<lparr>title = Some ''Acme announces new CEO'', description = Some [],
                 published_at = Some ''2024-03-15T09:30:00Z'',
                 source = Some ''Example News''\<rparr>) = 2
   \<and> hits negative_keywords
       (content \<lparr>title = Some ''Acme announces new CEO'', description = Some [],
                 published_at = Some ''2024-03-15T09:30:00Z'',
                 source = Some ''Example News''\<rparr>) = 0
   \<and> substr_in (lower ''Jane Doe'')
       (content \<lparr>title = Some ''Acme announces new CEO'', description = Some [],
                 published_at = Some ''2024-03-15T09:30:00Z'',
                 source = Some ''Example News''\<rparr>) = False"
  by code_simp

text \<open>
  Claim C8, amended. Take an item titled \<open>Acme announces new CEO\<close>, with any description
  and any source name, scored for the organization \<open>Acme Corp\<close> on the day of its
  publication, the lower-cased name of the person not occurring in its lower-cased title
  and description. Its score is 20 if \<open>acme corp\<close> occurs in the lower-cased description
  and 0 otherwise, plus 20 for the day, plus 10 if the source name holds a credible
  source, plus 2 for every business keyword found, minus 5 for every negative keyword
  found. It is less than the score of the item that differs from it only by a text added
  at the end of its description with which the name of the person occurs.
\<close>

theorem acme_scenario_score:
  assumes "strptime_ymd (take 10 pub) = Some date" and "toordinal date = today"
    and "\<not> substr_in (lower p) (content (acme_item d pub src))"
    and "substr_in (lower p) (content (acme_item (Some (fstr d @ extra)) pub src))"
  shows "calculate_relevance_score (acme_item d pub src) p ''Acme Corp'' today =
           Some ((if substr_in ''acme corp'' (lower (fstr d)) then 20 else 0) + 20
                 + source_bonus src
                 + 2 * int (hits business_keywords (content (acme_item d pub src)))
                 - 5 * int (hits negative_keywords (content (acme_item d pub src))))
         \<and> (\<exists>s s'. calculate_relevance_score (acme_item d pub src) p ''Acme Corp'' today = Some s
               \<and> calculate_relevance_score (acme_item (Some (fstr d @ extra)) pub src)
                    p ''Acme Corp'' today = Some s'
               \<and> s < s')"
proof -
  let ?a = "acme_item d pub src"
  let ?b = "acme_item (Some (fstr d @ extra)) pub src"
  have sa: "source ?a = Some src" and sb: "source ?b = Some src"
    by (simp_all add: acme_item_def)
  have ra: "recency_bonus ?a today = 20" and rb: "recency_bonus ?b today = 20"
    using assms(1,2) by (simp_all add: recency_bonus_def recency_score_def acme_item_def)
  have pa: "person_bonus ?a p = 0" using assms(3) by (simp add: person_bonus_def)
  have pb: "person_bonus ?b p = 30" using assms(4) by (simp add: person_bonus_def)
  have ca: "company_bonus ?a ''Acme Corp''
              = (if substr_in ''acme corp'' (lower (fstr d)) then 20 else 0)"
    by (rule acme_company_bonus)
  have "substr_in ''acme corp'' (lower (fstr d))
          \<Longrightarrow> substr_in ''acme corp'' (lower (fstr (Some (fstr d @ extra))))"
    by (simp add: fstr_def lower_append substr_in_append)
  then have cb: "company_bonus ?a ''Acme Corp'' \<le> company_bonus ?b ''Acme Corp''"
    unfolding acme_company_bonus by simp
  have c0: "0 \<le> company_bonus ?a ''Acme Corp''" unfolding acme_company_bonus by simp
  have s0: "0 \<le> source_bonus src" by (simp add: source_bonus_def)
  have pos: "hits business_keywords (content ?a) \<le> hits business_keywords (content ?b)"
    unfolding acme_content_extended by (rule hits_append)
  have pos2: "2 \<le> hits business_keywords (content ?a)" by (rule acme_business_hits)
  have na: "hits negative_keywords (content ?a) \<le> 4"
    and nb: "hits negative_keywords (content ?b) \<le> 4"
    by (rule negative_hits_le)+
  define ka where "ka = int (hits business_keywords (content ?a))"
  define kb where "kb = int (hits business_keywords (content ?b))"
  define ma where "ma = int (hits negative_keywords (content ?a))"
  define mb where "mb = int (hits negative_keywords (content ?b))"
  define oa where "oa = company_bonus ?a ''Acme Corp''"
  define ob where "ob = company_bonus ?b ''Acme Corp''"
  define sc where "sc = source_bonus src"
  have bounds: "2 \<le> ka" "ka \<le> kb" "0 \<le> ma" "ma \<le> 4" "0 \<le> mb" "mb \<le> 4"
    "0 \<le> oa" "oa \<le> ob" "0 \<le> sc"
    using pos pos2 na nb cb c0 s0 by (simp_all add: ka_def kb_def ma_def mb_def oa_def ob_def sc_def)
  have va: "calculate_relevance_score ?a p ''Acme Corp'' today
              = Some (max 0 (0 + oa + 20 + sc + 2 * ka - 5 * ma))"
    by (simp only: score_closed_form sa option.case pa ra ka_def ma_def oa_def sc_def)
  have vb: "calculate_relevance_score ?b p ''Acme Corp'' today
              = Some (max 0 (30 + ob + 20 + sc + 2 * kb - 5 * mb))"
    by (simp only: score_closed_form sb option.case pb rb kb_def mb_def ob_def sc_def)
  have ea: "max 0 (0 + oa + 20 + sc + 2 * ka - 5 * ma) = oa + 20 + sc + 2 * ka - 5 * ma"
    using bounds by simp
  have lt: "oa + 20 + sc + 2 * ka - 5 * ma < max 0 (30 + ob + 20 + sc + 2 * kb - 5 * mb)"
    using bounds by simp
  have first: "calculate_relevance_score ?a p ''Acme Corp'' today =
           Some ((if substr_in ''acme corp'' (lower (fstr d)) then 20 else 0) + 20
                 + source_bonus src
                 + 2 * int (hits business_keywords (content ?a))
                 - 5 * int (hits negative_keywords (content ?a)))"
    unfolding va ea unfolding oa_def sc_def ka_def ma_def ca ..
  have second: "\<exists>s s'. calculate_relevance_score ?a p ''Acme Corp'' today = Some s
               \<and> calculate_relevance_score ?b p ''Acme Corp'' today = Some s' \<and> s < s'"
    unfolding va vb ea using lt by blast
  from first second show ?thesis by (rule conjI)
qed

theorem acme_scenario_score_witness:
  "strptime_ymd (take 10 ''2024-03-15T09:30:00Z'') = Some (2024, 3, 15)
   \<and> toordinal (2024, 3, 15) = 738960
   \<and> \<not> substr_in (lower ''Jane Doe'')
         (content (acme_item (Some []) ''2024-03-15T09:30:00Z'' ''Example News''))
   \<and> substr_in (lower ''Jane Doe'')
         (content (acme_item (Some (fstr (Some []) @ '' with Jane Doe''))
                    ''2024-03-15T09:30:00Z'' ''Example News''))
   \<and> calculate_relevance_score (acme_item (Some []) ''2024-03-15T09:30:00Z'' ''Example News'')
        ''Jane Doe'' ''Acme Corp'' 738960 =
           Some ((if substr_in ''acme corp'' (lower (fstr (Some []))) then 20 else 0) + 20
                 + source_bonus ''Example News''
                 + 2 * int (hits business_keywords
                     (content (acme_item (Some []) ''2024-03-15T09:30:00Z'' ''Example News'')))
                 - 5 * int (hits negative_keywords
                     (content (acme_item (Some []) ''2024-03-15T09:30:00Z'' ''Example News''))))
   \<and> (\<exists>s s'. calculate_relevance_score
                 (acme_item (Some []) ''2024-03-15T09:30:00Z'' ''Example News'')
                 ''Jane Doe'' ''Acme Corp'' 738960 = Some s
            \<and> calculate_relevance_score
                 (acme_item (Some (fstr (Some []) @ '' with Jane Doe''))
                    ''2024-03-15T09:30:00Z'' ''Example News'')
                 ''Jane Doe'' ''Acme Corp'' 738960 = Some s'
            \<and> s < s')"
proof -
  have h1: "strptime_ymd (take 10 ''2024-03-15T09:30:00Z'') = Some (2024, 3, 15)"
    by code_simp
  have h2: "toordinal (2024, 3, 15) = 738960" by code_simp
  have h3: "\<not> substr_in (lower ''Jane Doe'')
         (content (acme_item (Some []) ''2024-03-15T09:30:00Z'' ''Example News''))"
    by code_simp
  have h4: "substr_in (lower ''Jane Doe'')
         (content (acme_item (Some (fstr (Some []) @ '' with Jane Doe''))
                    ''2024-03-15T09:30:00Z'' ''Example News''))"
    by code_simp
  note t = acme_scenario_score[OF h1 h2 h3 h4]
  show ?thesis by (intro conjI h1 h2 h3 h4 conjunct1[OF t] conjunct2[OF t])
qed

subsection \<open>The search for a profile\<close>

lemma search_url_loop_grows:
  "length sent \<le> length (snd (search_url_loop query ps google sent))"
proof (induction ps arbitrary: sent)
  case Nil
  then show ?case by simp
next
  case (Cons p ps)
  from Cons[of "sent @ [(query, p)]"] show ?case
    by (auto split: response.splits)
qed

lemma search_url_loop_sends:
  "Suc (length sent) \<le> length (snd (search_url_loop query (p # ps) google sent))"
  using search_url_loop_grows[of "sent @ [(query, p)]" query ps google]
  by (auto split: response.splits)

lemma google_search_sends:
  "Suc (length sent) \<le> length (snd (google_search_linkedin query google sent))"
  unfolding google_search_linkedin_def search_url_parameters_def
  by (rule search_url_loop_sends)

lemma search_attempts_sends:
  "Suc (length sent) \<le> length (snd (search_attempts (q # qs) google sent))"
proof (induction qs arbitrary: q sent)
  case Nil
  from google_search_sends[of sent q google] show ?case
    by (auto split: prod.splits)
next
  case (Cons q2 qs)
  obtain urls sent_now where g: "google_search_linkedin q google sent = (urls, sent_now)"
    by (cases "google_search_linkedin q google sent")
  from google_search_sends[of sent q google] g have l: "Suc (length sent) \<le> length sent_now"
    by simp
  from Cons[of sent_now q2] l
  have "Suc (length sent) \<le> length (snd (search_attempts (q2 # qs) google sent_now))" by simp
  with g l show ?case by simp
qed

lemma rate_limited_first_query:
  assumes "google 0 = Http 429 found_urls"
  shows "google_search_linkedin query google [] = ([], [(query, ''&num=10'')])"
  using assms by (simp add: google_search_linkedin_def search_url_parameters_def)

lemma search_attempts_after_rate_limit:
  assumes "google 0 = Http 429 found_urls"
  shows "2 \<le> length (snd (search_attempts (q1 # q2 # qs) google []))"
proof -
  have "search_attempts (q1 # q2 # qs) google []
          = search_attempts (q2 # qs) google [(q1, ''&num=10'')]"
    by (simp add: rate_limited_first_query[of google found_urls, OF assms])
  with search_attempts_sends[of "[(q1, ''&num=10'')]" q2 qs google] show ?thesis by simp
qed

lemma search_queries_two: "\<exists>q1 q2 qs. search_queries person_name company_name = q1 # q2 # qs"
  by (simp add: search_queries_def)

lemma not_stops_at_rate_limit:
  assumes "rate_limited (google 0)" and "2 \<le> length sent"
  shows "\<not> stops_at_rate_limit google sent"
proof
  assume "stops_at_rate_limit google sent"
  moreover from assms(2) have "0 < length sent" by arith
  then have "0 \<in> set [0..<length sent]" by simp
  ultimately have "rate_limited (google 0) \<longrightarrow> Suc 0 = length sent"
    unfolding stops_at_rate_limit_def list_all_iff by blast
  with assms show False by simp
qed

text \<open>
  Claim C9 does not hold of the program. Let the person be absent from the manual
  database and let Google answer the first request of the call with the status 429.
  \<open>google_search_linkedin\<close> then returns the empty list, which the loop over the queries
  takes for a search without results: it goes on to the next query, and a second request
  is made to Google.
\<close>

theorem requests_after_rate_limit:
  assumes "check_manual_database person_name company_name = None"
    and "google 0 = Http 429 found_urls"
  shows "2 \<le> length (snd (primary_search person_name company_name google))
         \<and> \<not> stops_at_rate_limit google (snd (primary_search person_name company_name google))"
proof -
  obtain q1 q2 qs where q: "search_queries person_name company_name = q1 # q2 # qs"
    using search_queries_two by blast
  have s: "snd (primary_search person_name company_name google)
             = snd (search_attempts (q1 # q2 # qs) google [])"
    by (simp add: primary_search_def assms(1) q split: prod.splits)
  have l: "2 \<le> length (snd (primary_search person_name company_name google))"
    unfolding s by (rule search_attempts_after_rate_limit[of google found_urls, OF assms(2)])
  have r: "rate_limited (google 0)" by (simp add: assms(2) rate_limited_def)
  from l not_stops_at_rate_limit[of google, OF r l] show ?thesis by (rule conjI)
qed

theorem requests_after_rate_limit_witness:
  "check_manual_database ''Jane Doe'' ''Acme Corp'' = None
   \<and> (\<lambda>n. Http 429 []) (0::nat) = Http 429 []
   \<and> snd (primary_search ''Jane Doe'' ''Acme Corp'' (\<lambda>n. Http 429 []))
       = [([CHR 0x22] @ ''Jane Doe'' @ [CHR 0x22] @ '' site:linkedin.com/in/'', ''&num=10''),
          ([CHR 0x22] @ ''Jane Doe'' @ [CHR 0x22] @ '' site:linkedin.com/in/ ''
             @ [CHR 0x22] @ ''Acme Corp'' @ [CHR 0x22], ''&num=10''),
          ([CHR 0x22] @ ''Jane Doe'' @ [CHR 0x22] @ '' linkedin profile'', ''&num=10'')]
   \<and> 2 \<le> length (snd (primary_search ''Jane Doe'' ''Acme Corp'' (\<lambda>n. Http 429 [])))
   \<and> \<not> stops_at_rate_limit (\<lambda>n. Http 429 [])
         (snd (primary_search ''Jane Doe'' ''Acme Corp'' (\<lambda>n. Http 429 [])))"
proof -
  have h1: "check_manual_database ''Jane Doe'' ''Acme Corp'' = None" by code_simp
  have h2: "(\<lambda>n. Http 429 []) (0::nat) = Http 429 []" by simp
  have e: "snd (primary_search ''Jane Doe'' ''Acme Corp'' (\<lambda>n. Http 429 []))
       = [([CHR 0x22] @ ''Jane Doe'' @ [CHR 0x22] @ '' site:linkedin.com/in/'', ''&num=10''),
          ([CHR 0x22] @ ''Jane Doe'' @ [CHR 0x22] @ '' site:linkedin.com/in/ ''
             @ [CHR 0x22] @ ''Acme Corp'' @ [CHR 0x22], ''&num=10''),
          ([CHR 0x22] @ ''Jane Doe'' @ [CHR 0x22] @ '' linkedin profile'', ''&num=10'')]"
    by code_simp
  note t = requests_after_rate_limit[of "''Jane Doe''" "''Acme Corp''" "\<lambda>n. Http 429 []" "[]",
      OF h1 h2]
  show ?thesis by (intro conjI h1 h2 e conjunct1[OF t] conjunct2[OF t])
qed

subsection \<open>Scraping a profile\<close>












end
